theory Spec2Isabelle
  imports Main
begin

section \<open>The Python values and effects that \<open>pysh/filters.py\<close> works with\<close>

text \<open>
  A Python \<open>bytes\<close> value is a list of bytes; an Isabelle \<open>char\<close> is one byte, so
  \<open>b"hello\n"\<close> is the string \<open>''hello''\<close> followed by \<open>CHR 0x0A\<close>.
\<close>

type_synonym bytes = string

text \<open>
  The exceptions the module raises itself (\<open>RuntimeError\<close>, \<open>NotImplementedError\<close>, and
  \<open>AssertionError\<close> from \<open>assert False\<close>), and the ones the interpreter and \<open>io\<close> raise
  under it: \<open>TypeError\<close> for a call with the wrong number of arguments or a wrong
  argument type, \<open>AttributeError\<close> for a method looked up on an object without it,
  \<open>UnsupportedOperation\<close> for reading a write-only stream, \<open>ValueError\<close> for a
  stream that is no longer there.
\<close>

datatype exn =
    RuntimeError
  | NotImplementedError
  | AssertionError
  | TypeError
  | AttributeError
  | UnsupportedOperation
  | ValueError

text \<open>
  \<open>except cls\<close> catches an exception \<open>e\<close> when \<open>isinstance(e, cls)\<close>. Python's built-in
  \<open>NotImplementedError\<close> is a subclass of \<open>RuntimeError\<close>, and \<open>io.UnsupportedOperation\<close>
  of \<open>ValueError\<close>; the other classes here are unrelated.
\<close>

fun isinstance_exn :: "exn \<Rightarrow> exn \<Rightarrow> bool" where
  "isinstance_exn NotImplementedError RuntimeError = True"
| "isinstance_exn UnsupportedOperation ValueError = True"
| "isinstance_exn e cls = (e = cls)"

text \<open>
  The objects a thunk is handed or returns: \<open>None\<close>, a \<open>bytes\<close> value, an \<open>int\<close>, a
  \<open>str\<close>, a reference to an \<open>io.BytesIO\<close> object (its address in the heap), and
  \<open>sys.stdout.buffer\<close>.
\<close>

datatype pyval =
    PyNone
  | PyBytes bytes
  | PyInt int
  | PyStr string
  | BytesIO nat
  | StdoutBuffer

text \<open>
  An \<open>io.BytesIO\<close> object: its contents (what \<open>getvalue()\<close> returns) and its position
  (what \<open>tell()\<close> returns).
\<close>

record bytesio =
  getvalue :: bytes
  tell :: nat

text \<open>
  The part of the interpreter's state the module touches: the \<open>BytesIO\<close> objects
  allocated so far, and the bytes written to the process's standard output.
\<close>

record world =
  heap :: "bytesio list"
  stdout :: bytes

type_synonym 'a comp = "world \<Rightarrow> (exn + 'a) \<times> world"

definition return_val :: "'a \<Rightarrow> 'a comp" where
  "return_val v w = (Inr v, w)"

definition raise_exn :: "exn \<Rightarrow> 'a comp" where
  "raise_exn e w = (Inl e, w)"

text \<open>Sequencing of two statements: an exception of the first skips the second.\<close>

definition bind_comp :: "'a comp \<Rightarrow> ('a \<Rightarrow> 'b comp) \<Rightarrow> 'b comp" where
  "bind_comp m f w =
     (case m w of
        (Inl e, w') \<Rightarrow> (Inl e, w')
      | (Inr v, w') \<Rightarrow> f v w')"

subsection \<open>\<open>io.BytesIO\<close>\<close>

definition bytesio_new :: bytesio where
  "bytesio_new = \<lparr>getvalue = [], tell = 0\<rparr>"

text \<open>
  \<open>write(b)\<close> overwrites from the position on, extending the contents (zero-filled when
  the position is past the end), and advances the position; writing \<open>b""\<close> changes
  nothing.
\<close>

definition bytesio_write :: "bytes \<Rightarrow> bytesio \<Rightarrow> bytesio" where
  "bytesio_write b s =
     (if b = [] then s
      else \<lparr>getvalue =
               take (tell s) (getvalue s @ replicate (tell s - length (getvalue s)) (CHR 0x00))
               @ b @ drop (tell s + length b) (getvalue s),
            tell = tell s + length b\<rparr>)"

text \<open>\<open>read()\<close> returns everything from the position to the end and moves there.\<close>

definition bytesio_read :: "bytesio \<Rightarrow> bytes \<times> bytesio" where
  "bytesio_read s =
     (drop (tell s) (getvalue s), s\<lparr>tell := max (tell s) (length (getvalue s))\<rparr>)"

definition bytesio_seek :: "nat \<Rightarrow> bytesio \<Rightarrow> bytesio" where
  "bytesio_seek n s = s\<lparr>tell := n\<rparr>"

text \<open>\<open>io.BytesIO()\<close>: a new, empty object at the next free address.\<close>

definition new_BytesIO :: "world \<Rightarrow> pyval \<times> world" where
  "new_BytesIO w = (BytesIO (length (heap w)), w\<lparr>heap := heap w @ [bytesio_new]\<rparr>)"

text \<open>
  The stream methods, dispatched on the object. References are only made by
  \<open>new_BytesIO\<close>; an address outside the heap stands for an object that is gone.
\<close>

definition stream_write :: "pyval \<Rightarrow> bytes \<Rightarrow> pyval comp" where
  "stream_write obj b w =
     (case obj of
        BytesIO a \<Rightarrow>
          (if a < length (heap w)
           then (Inr (PyInt (int (length b))),
                 w\<lparr>heap := (heap w)[a := bytesio_write b (heap w ! a)]\<rparr>)
           else (Inl ValueError, w))
      | StdoutBuffer \<Rightarrow> (Inr (PyInt (int (length b))), w\<lparr>stdout := stdout w @ b\<rparr>)
      | _ \<Rightarrow> (Inl AttributeError, w))"

definition stream_read :: "pyval \<Rightarrow> pyval comp" where
  "stream_read obj w =
     (case obj of
        BytesIO a \<Rightarrow>
          (if a < length (heap w)
           then (Inr (PyBytes (fst (bytesio_read (heap w ! a)))),
                 w\<lparr>heap := (heap w)[a := snd (bytesio_read (heap w ! a))]\<rparr>)
           else (Inl ValueError, w))
      | StdoutBuffer \<Rightarrow> (Inl UnsupportedOperation, w)
      | _ \<Rightarrow> (Inl AttributeError, w))"

definition stream_seek :: "pyval \<Rightarrow> nat \<Rightarrow> pyval comp" where
  "stream_seek obj n w =
     (case obj of
        BytesIO a \<Rightarrow>
          (if a < length (heap w)
           then (Inr (PyInt (int n)), w\<lparr>heap := (heap w)[a := bytesio_seek n (heap w ! a)]\<rparr>)
           else (Inl ValueError, w))
      | StdoutBuffer \<Rightarrow> (Inl UnsupportedOperation, w)
      | _ \<Rightarrow> (Inl AttributeError, w))"

text \<open>\<open>b.rstrip(chars)\<close>: drop every trailing byte that occurs in \<open>chars\<close>.\<close>

definition bytes_rstrip :: "bytes \<Rightarrow> bytes \<Rightarrow> bytes" where
  "bytes_rstrip b chars = rev (dropWhile (\<lambda>c. c \<in> set chars) (rev b))"

definition rstrip :: "pyval \<Rightarrow> bytes \<Rightarrow> pyval comp" where
  "rstrip v chars w =
     (case v of
        PyBytes b \<Rightarrow> (Inr (PyBytes (bytes_rstrip b chars)), w)
      | _ \<Rightarrow> (Inl AttributeError, w))"

subsection \<open>Callables\<close>

text \<open>
  The thunks of the module are Python lambdas and closures of two parameters, and in one
  place a lambda of none. Calling one with two positional arguments runs its body when it
  takes two, and raises \<open>TypeError\<close> when it takes none.
\<close>

datatype callable =
    Lambda2 "pyval \<Rightarrow> pyval \<Rightarrow> pyval comp"
  | Lambda0 "pyval comp"

fun call2 :: "callable \<Rightarrow> pyval \<Rightarrow> pyval \<Rightarrow> pyval comp" where
  "call2 (Lambda2 body) a b = body a b"
| "call2 (Lambda0 body) a b = raise_exn TypeError"

fun call0 :: "callable \<Rightarrow> pyval comp" where
  "call0 (Lambda0 body) = body"
| "call0 (Lambda2 body) = raise_exn TypeError"

section \<open>\<open>IoSpec\<close>\<close>

text \<open>
  \<open>class IoSpec(NamedTuple)\<close>: \<open>type\<close> is a \<open>str\<close> (\<open>'none'\<close>, \<open>'stream'\<close>, \<open>'iter'\<close>,
  \<open>'bytes'\<close>, ...), and \<open>required_flag\<close> is the source's field \<open>required_\<close>.
\<close>

record IoSpec =
  type :: string
  required_flag :: bool

definition required :: "IoSpec \<Rightarrow> bool" where
  "required self = (required_flag self \<and> type self \<noteq> ''none'')"

section \<open>\<open>Filter\<close>\<close>

text \<open>
  A wrapped function takes its positional arguments and its keyword arguments. The
  \<open>Function\<close> record is what \<open>Function.__init__\<close> leaves; an \<open>Argspec\<close> is the pair
  \<open>(type, n)\<close>.
\<close>

type_synonym kwargs = "(string \<times> pyval) list"

type_synonym Argspec = "string \<times> nat"

record Function =
  func :: "pyval list \<Rightarrow> kwargs \<Rightarrow> pyval comp"
  input :: IoSpec
  "output" :: IoSpec
  argspecs :: "Argspec list"

record Filter =
  input :: IoSpec
  "output" :: IoSpec
  thunk :: callable

text \<open>
  \<open>pipe_by_stream\<close>: the closure \<open>piped\<close> allocates a buffer, runs the left thunk
  into it, rewinds it, and returns what the right thunk returns reading from it.
\<close>

definition pipe_by_stream :: "Filter \<Rightarrow> Filter \<Rightarrow> callable" where
  "pipe_by_stream left right =
     Lambda2 (\<lambda>inp outp w.
       case new_BytesIO w of
         (buf, w1) \<Rightarrow>
           bind_comp (call2 (thunk left) inp buf)
             (\<lambda>_. bind_comp (stream_seek buf 0)
               (\<lambda>_. call2 (thunk right) buf outp)) w1)"

text \<open>\<open>Filter.__call__\<close>\<close>

definition Filter_call :: "Filter \<Rightarrow> pyval comp" where
  "Filter_call self =
     (if required (input self) then raise_exn RuntimeError
      else if type (output self) \<in> {''iter'', ''bytes''} \<or> \<not> required (output self)
        then call2 (thunk self) PyNone PyNone
      else if type (output self) = ''stream'' then raise_exn NotImplementedError
      else raise_exn AssertionError)"

text \<open>\<open>Filter.__or__\<close>, the pipe operator.\<close>

definition Filter_or :: "Filter \<Rightarrow> Filter \<Rightarrow> exn + Filter" where
  "Filter_or self other =
     (if type (output self) \<noteq> type (input other) then Inl RuntimeError
      else if type (output self) = ''none'' then Inl RuntimeError
      else if type (output self) = ''stream''
        then Inr \<lparr>input = input self, output = output other,
                  thunk = pipe_by_stream self other\<rparr>
      else if type (output self) = ''iter'' then Inl NotImplementedError
      else Inl AssertionError)"

text \<open>
  \<open>slurp_filter\<close>: \<open>IoSpec('stream')\<close> and \<open>IoSpec('bytes')\<close> take the default
  \<open>required_ = True\<close>.
\<close>

definition slurp_filter :: Filter where
  "slurp_filter =
     \<lparr>input = \<lparr>type = ''stream'', required_flag = True\<rparr>,
      output = \<lparr>type = ''bytes'', required_flag = True\<rparr>,
      thunk = Lambda2 (\<lambda>inp _. bind_comp (stream_read inp) (\<lambda>v. rstrip v [CHR 0x0A]))\<rparr>"

definition slurp :: "Filter \<Rightarrow> pyval comp" where
  "slurp filt w =
     (case Filter_or filt slurp_filter of
        Inl e \<Rightarrow> (Inl e, w)
      | Inr piped \<Rightarrow> Filter_call piped w)"

definition to_stdout :: "Filter \<Rightarrow> pyval comp" where
  "to_stdout filt =
     (if required (input filt) then raise_exn RuntimeError
      else if type (output filt) \<noteq> ''stream'' then raise_exn RuntimeError
      else bind_comp (call2 (thunk filt) PyNone StdoutBuffer) (\<lambda>_. return_val PyNone))"

section \<open>\<open>Function\<close>\<close>

text \<open>\<open>Function.pass_input\<close> and \<open>Function.pass_output\<close>; the last branch is \<open>assert False\<close>.\<close>

definition pass_input :: "IoSpec \<Rightarrow> exn + bool" where
  "pass_input inp =
     (if type inp \<in> {''stream'', ''iter'', ''bytes''} then Inr True
      else if type inp \<in> {''none''} then Inr False
      else Inl AssertionError)"

definition pass_output :: "IoSpec \<Rightarrow> exn + bool" where
  "pass_output outp =
     (if type outp \<in> {''stream''} then Inr True
      else if type outp \<in> {''none'', ''iter'', ''bytes''} then Inr False
      else Inl AssertionError)"

text \<open>
  \<open>Function.__call__\<close>: the first three thunks are lambdas of two parameters, the last
  one is \<open>lambda: self.func(*args, **kwargs)\<close>, of none.
\<close>

definition Function_call :: "Function \<Rightarrow> pyval list \<Rightarrow> kwargs \<Rightarrow> exn + Filter" where
  "Function_call self args kwargs =
     (case pass_input (Function.input self) of
        Inl e \<Rightarrow> Inl e
      | Inr p_in \<Rightarrow>
     (case pass_output (Function.output self) of
        Inl e \<Rightarrow> Inl e
      | Inr p_out \<Rightarrow>
          Inr \<lparr>input = Function.input self, output = Function.output self,
               thunk =
                 (if p_in \<and> p_out
                    then Lambda2 (\<lambda>inp outp. func self (inp # outp # args) kwargs)
                  else if p_in then Lambda2 (\<lambda>inp _. func self (inp # args) kwargs)
                  else if p_out then Lambda2 (\<lambda>_ outp. func self (outp # args) kwargs)
                  else Lambda0 (func self args kwargs))\<rparr>))"

section \<open>Example stages\<close>

text \<open>
  Small stages on which the properties below are run: \<open>IoSpec(t)\<close> with the default
  flag, a thunk that does nothing, one that writes to its sink twice and returns, one that
  reads all of its source at once, and a wrapped function that leaves a trace on standard
  output when it is called.
\<close>

definition mk_spec :: "string \<Rightarrow> IoSpec" where
  "mk_spec t = \<lparr>type = t, required_flag = True\<rparr>"

definition empty_world :: world where
  "empty_world = \<lparr>heap = [], stdout = []\<rparr>"

definition noop_thunk :: callable where
  "noop_thunk = Lambda2 (\<lambda>_ _. return_val PyNone)"

definition write_twice :: "bytes \<Rightarrow> bytes \<Rightarrow> callable" where
  "write_twice b1 b2 =
     Lambda2 (\<lambda>_ outp. bind_comp (stream_write outp b1)
       (\<lambda>_. bind_comp (stream_write outp b2) (\<lambda>_. return_val PyNone)))"

definition read_all :: callable where
  "read_all = Lambda2 (\<lambda>inp _. stream_read inp)"

definition none_stage :: Filter where
  "none_stage = \<lparr>input = mk_spec ''none'', output = mk_spec ''none'', thunk = noop_thunk\<rparr>"

definition stream_producer :: Filter where
  "stream_producer =
     \<lparr>input = mk_spec ''none'', output = mk_spec ''stream'', thunk = write_twice ''ab'' ''cd''\<rparr>"

definition stream_stage :: Filter where
  "stream_stage =
     \<lparr>input = mk_spec ''stream'', output = mk_spec ''stream'', thunk = write_twice ''ab'' ''cd''\<rparr>"

definition stream_consumer :: Filter where
  "stream_consumer =
     \<lparr>input = mk_spec ''stream'', output = mk_spec ''bytes'', thunk = read_all\<rparr>"

definition hello_producer :: Filter where
  "hello_producer =
     \<lparr>input = mk_spec ''none'', output = mk_spec ''stream'',
      thunk = write_twice ''hello'' [CHR 0x0A, CHR 0x0A, CHR 0x0A]\<rparr>"

definition iter_producer :: Filter where
  "iter_producer = \<lparr>input = mk_spec ''none'', output = mk_spec ''iter'', thunk = noop_thunk\<rparr>"

definition iter_consumer :: Filter where
  "iter_consumer = \<lparr>input = mk_spec ''iter'', output = mk_spec ''none'', thunk = noop_thunk\<rparr>"

definition bytes_producer :: Filter where
  "bytes_producer = \<lparr>input = mk_spec ''none'', output = mk_spec ''bytes'', thunk = noop_thunk\<rparr>"

definition bytes_consumer :: Filter where
  "bytes_consumer = \<lparr>input = mk_spec ''bytes'', output = mk_spec ''none'', thunk = noop_thunk\<rparr>"

definition announce :: "pyval list \<Rightarrow> kwargs \<Rightarrow> pyval comp" where
  "announce args kw =
     bind_comp (stream_write StdoutBuffer ''called'') (\<lambda>_. return_val (PyBytes ''done''))"

definition bytes_function :: Function where
  "bytes_function =
     \<lparr>func = announce, input = mk_spec ''none'', output = mk_spec ''bytes'', argspecs = []\<rparr>"

section \<open>Properties\<close>

subsection \<open>\<open>IoSpec.required\<close>\<close>

text \<open>
  C6. For every IoSpec whose kind is \<open>'none'\<close> the derived property \<open>required\<close> is false
  whatever the stored flag; for every IoSpec of another kind \<open>required\<close> equals the
  stored flag.
\<close>

theorem required_none_false_else_flag:
  "(type s = ''none'' \<longrightarrow> \<not> required s) \<and>
   (type s \<noteq> ''none'' \<longrightarrow> required s = required_flag s)"
  by (simp add: required_def)

theorem required_none_false_else_flag_witness:
  "\<not> required \<lparr>type = ''none'', required_flag = True\<rparr> \<and>
   required \<lparr>type = ''stream'', required_flag = True\<rparr> \<and>
   \<not> required \<lparr>type = ''stream'', required_flag = False\<rparr>"
  using required_none_false_else_flag [of "\<lparr>type = ''none'', required_flag = True\<rparr>"]
        required_none_false_else_flag [of "\<lparr>type = ''stream'', required_flag = True\<rparr>"]
        required_none_false_else_flag [of "\<lparr>type = ''stream'', required_flag = False\<rparr>"]
  by simp

subsection \<open>The pipe operator\<close>

text \<open>
  C1, as stated, says that composition succeeds for every pair whose adjoining kinds are
  equal and not \<open>'none'\<close>. The pair of kind \<open>'iter'\<close> is such a pair, and \<open>__or__\<close> raises
  \<open>NotImplementedError\<close> on it.
\<close>

theorem Filter_or_iter_pair_not_composed:
  "type (output iter_producer) = type (input iter_consumer) \<and>
   type (output iter_producer) \<noteq> ''none'' \<and>
   Filter_or iter_producer iter_consumer = Inl NotImplementedError \<and>
   \<not> ((\<not> isl (Filter_or iter_producer iter_consumer)) =
       (type (output iter_producer) = type (input iter_consumer) \<and>
        type (output iter_producer) \<noteq> ''none''))"
  by (simp add: Filter_or_def iter_producer_def iter_consumer_def mk_spec_def)

text \<open>
  C1, amended. Composing A with B raises the usage error (\<open>RuntimeError\<close>) exactly when
  the adjoining kinds differ or the shared kind is \<open>'none'\<close>. It succeeds only if the kinds
  are equal and not \<open>'none'\<close>, and it does succeed when the shared kind is \<open>'stream'\<close>. When
  the shared kind is \<open>'iter'\<close> it does not succeed: it raises \<open>NotImplementedError\<close>.
\<close>

theorem Filter_or_outcomes:
  "((Filter_or A B = Inl RuntimeError) =
      (type (output A) \<noteq> type (input B) \<or> type (output A) = ''none'')) \<and>
   (\<not> isl (Filter_or A B) \<longrightarrow>
      type (output A) = type (input B) \<and> type (output A) \<noteq> ''none'') \<and>
   (type (output A) = ''stream'' \<and> type (input B) = ''stream'' \<longrightarrow>
      \<not> isl (Filter_or A B)) \<and>
   (type (output A) = ''iter'' \<and> type (input B) = ''iter'' \<longrightarrow>
      Filter_or A B = Inl NotImplementedError)"
  by (auto simp: Filter_or_def)

theorem Filter_or_outcomes_witness:
  "\<not> isl (Filter_or stream_producer stream_consumer) \<and>
   Filter_or none_stage none_stage = Inl RuntimeError \<and>
   Filter_or stream_producer iter_consumer = Inl RuntimeError \<and>
   Filter_or iter_producer iter_consumer = Inl NotImplementedError"
  using Filter_or_outcomes [of stream_producer stream_consumer]
        Filter_or_outcomes [of none_stage none_stage]
        Filter_or_outcomes [of stream_producer iter_consumer]
        Filter_or_outcomes [of iter_producer iter_consumer]
  by (simp add: stream_producer_def stream_consumer_def none_stage_def iter_producer_def
      iter_consumer_def mk_spec_def)

text \<open>
  C9. Whenever composing A with B succeeds, the resulting Filter's input spec is A's input
  spec and its output spec is B's output spec.
\<close>

theorem Filter_or_specs:
  "Filter_or A B = Inr C \<Longrightarrow> input C = input A \<and> output C = output B"
  by (auto simp: Filter_or_def split: if_splits)

theorem Filter_or_specs_witness:
  "Filter_or stream_producer stream_consumer =
     Inr \<lparr>input = input stream_producer, output = output stream_consumer,
          thunk = pipe_by_stream stream_producer stream_consumer\<rparr> \<and>
   input \<lparr>input = input stream_producer, output = output stream_consumer,
          thunk = pipe_by_stream stream_producer stream_consumer\<rparr> = mk_spec ''none'' \<and>
   output \<lparr>input = input stream_producer, output = output stream_consumer,
          thunk = pipe_by_stream stream_producer stream_consumer\<rparr> = mk_spec ''bytes''"
proof -
  have composed: "Filter_or stream_producer stream_consumer =
     Inr \<lparr>input = input stream_producer, output = output stream_consumer,
          thunk = pipe_by_stream stream_producer stream_consumer\<rparr>"
    by (simp add: Filter_or_def stream_producer_def stream_consumer_def mk_spec_def)
  from Filter_or_specs [OF composed] composed show ?thesis
    by (simp add: stream_producer_def stream_consumer_def)
qed

text \<open>
  C10. For every pair of Filters whose adjoining kinds are both \<open>'bytes'\<close>, composition
  reaches the \<open>assert False\<close> branch: it fails with \<open>AssertionError\<close>, which is neither
  a success, nor the usage error, nor the not-supported signal.
\<close>

theorem Filter_or_bytes_pair_AssertionError:
  "type (output A) = ''bytes'' \<Longrightarrow> type (input B) = ''bytes'' \<Longrightarrow>
   Filter_or A B = Inl AssertionError \<and> isl (Filter_or A B) \<and>
   Filter_or A B \<noteq> Inl RuntimeError \<and> Filter_or A B \<noteq> Inl NotImplementedError"
  by (simp add: Filter_or_def)

theorem Filter_or_bytes_pair_AssertionError_witness:
  "Filter_or bytes_producer bytes_consumer = Inl AssertionError"
  using Filter_or_bytes_pair_AssertionError [of bytes_producer bytes_consumer]
  by (simp add: bytes_producer_def bytes_consumer_def mk_spec_def)

subsection \<open>The paths that are not supported yet\<close>

text \<open>
  C5. Composing two Filters over the shared kind \<open>'iter'\<close>, and invoking a Filter whose
  input is not required and whose output is \<open>'stream'\<close> and required, both raise
  \<open>NotImplementedError\<close>. That signal is not the usage error: the classes differ, and a
  handler for \<open>NotImplementedError\<close> catches it and does not catch a \<open>RuntimeError\<close>.
\<close>

theorem unsupported_paths_raise_NotImplementedError:
  "(type (output A) = ''iter'' \<and> type (input B) = ''iter'' \<longrightarrow>
      Filter_or A B = Inl NotImplementedError) \<and>
   (\<not> required (input F) \<and> type (output F) = ''stream'' \<and> required (output F) \<longrightarrow>
      Filter_call F w = (Inl NotImplementedError, w)) \<and>
   NotImplementedError \<noteq> RuntimeError \<and>
   isinstance_exn NotImplementedError NotImplementedError \<and>
   \<not> isinstance_exn RuntimeError NotImplementedError"
  by (simp add: Filter_or_def Filter_call_def raise_exn_def)

theorem unsupported_paths_raise_NotImplementedError_witness:
  "Filter_or iter_producer iter_consumer = Inl NotImplementedError \<and>
   Filter_call stream_producer empty_world = (Inl NotImplementedError, empty_world)"
  using unsupported_paths_raise_NotImplementedError
          [of iter_producer iter_consumer stream_producer empty_world]
  by (simp add: iter_producer_def iter_consumer_def stream_producer_def mk_spec_def required_def)

subsection \<open>Entry points that refuse a filter\<close>

text \<open>
  C7. For every Filter whose output kind is \<open>'iter'\<close> or \<open>'bytes'\<close> (not \<open>'stream'\<close>),
  \<open>slurp\<close> raises the usage error; nothing has run, the state is the one it started in.
\<close>

theorem slurp_non_stream_usage_error:
  "type (output F) = ''iter'' \<or> type (output F) = ''bytes'' \<Longrightarrow>
   slurp F w = (Inl RuntimeError, w)"
  by (auto simp: slurp_def Filter_or_def slurp_filter_def)

theorem slurp_non_stream_usage_error_witness:
  "slurp iter_producer empty_world = (Inl RuntimeError, empty_world) \<and>
   slurp bytes_producer empty_world = (Inl RuntimeError, empty_world)"
  using slurp_non_stream_usage_error [of iter_producer empty_world]
        slurp_non_stream_usage_error [of bytes_producer empty_world]
  by (simp add: iter_producer_def bytes_producer_def mk_spec_def)

text \<open>
  C8. For every Filter whose input spec is required, \<open>to_stdout\<close> raises the usage error
  and leaves the state, standard output included, as it was; likewise when the Filter's
  output kind is not \<open>'stream'\<close>. The thunk \<open>t\<close> is arbitrary, also one that would write
  to its sink on any call: it is never invoked.
\<close>

theorem to_stdout_usage_error_without_running:
  "(required (input F) \<longrightarrow>
      to_stdout (F\<lparr>thunk := t\<rparr>) w = (Inl RuntimeError, w) \<and>
      stdout (snd (to_stdout (F\<lparr>thunk := t\<rparr>) w)) = stdout w) \<and>
   (type (output F) \<noteq> ''stream'' \<longrightarrow>
      to_stdout (F\<lparr>thunk := t\<rparr>) w = (Inl RuntimeError, w) \<and>
      stdout (snd (to_stdout (F\<lparr>thunk := t\<rparr>) w)) = stdout w)"
  by (simp add: to_stdout_def raise_exn_def)

theorem to_stdout_usage_error_without_running_witness:
  "to_stdout stream_stage empty_world = (Inl RuntimeError, empty_world) \<and>
   to_stdout (bytes_producer\<lparr>thunk := write_twice ''ab'' ''cd''\<rparr>) empty_world =
     (Inl RuntimeError, empty_world) \<and>
   fst (call2 (write_twice ''ab'' ''cd'') PyNone StdoutBuffer empty_world) = Inr PyNone \<and>
   stdout (snd (call2 (write_twice ''ab'' ''cd'') PyNone StdoutBuffer empty_world)) = ''abcd''"
  using to_stdout_usage_error_without_running [of stream_stage "write_twice ''ab'' ''cd''" empty_world]
        to_stdout_usage_error_without_running [of bytes_producer "write_twice ''ab'' ''cd''" empty_world]
  by (simp add: stream_stage_def bytes_producer_def mk_spec_def required_def empty_world_def
      write_twice_def bind_comp_def stream_write_def return_val_def)

subsection \<open>Composition over a stream\<close>

text \<open>Two writes into a new buffer leave the concatenation in it.\<close>

lemma getvalue_write_write_new:
  "getvalue (bytesio_write b2 (bytesio_write b1 bytesio_new)) = b1 @ b2"
  by (simp add: bytesio_write_def bytesio_new_def)

text \<open>After \<open>seek(0)\<close> a single \<open>read()\<close> returns the whole contents.\<close>

lemma read_after_rewind:
  assumes "n < length (heap w)"
  shows "stream_read (BytesIO n) (w\<lparr>heap := (heap w)[n := bytesio_seek 0 (heap w ! n)]\<rparr>)
     = (Inr (PyBytes (getvalue (heap w ! n))),
        w\<lparr>heap := (heap w)[n := (heap w ! n)\<lparr>tell := length (getvalue (heap w ! n))\<rparr>]\<rparr>)"
  using assms by (simp add: stream_read_def bytesio_read_def bytesio_seek_def)

text \<open>The closure \<open>piped\<close>, step by step.\<close>

lemma piped_run:
  "call2 (pipe_by_stream A B) src snk w =
     (case call2 (thunk A) src (BytesIO (length (heap w))) (w\<lparr>heap := heap w @ [bytesio_new]\<rparr>) of
        (Inl e, w2) \<Rightarrow> (Inl e, w2)
      | (Inr r, w2) \<Rightarrow>
          (case stream_seek (BytesIO (length (heap w))) 0 w2 of
             (Inl e, w3) \<Rightarrow> (Inl e, w3)
           | (Inr r', w3) \<Rightarrow> call2 (thunk B) (BytesIO (length (heap w))) snk w3))"
  by (simp add: pipe_by_stream_def new_BytesIO_def bind_comp_def split: prod.splits sum.splits)

lemma piped_run_ok:
  assumes "call2 (thunk A) src (BytesIO (length (heap w))) (w\<lparr>heap := heap w @ [bytesio_new]\<rparr>)
             = (Inr r, w2)"
    and "length (heap w) < length (heap w2)"
  shows "call2 (pipe_by_stream A B) src snk w =
     call2 (thunk B) (BytesIO (length (heap w))) snk
       (w2\<lparr>heap := (heap w2)[length (heap w) := bytesio_seek 0 (heap w2 ! length (heap w))]\<rparr>)"
  using assms by (simp add: piped_run stream_seek_def)

text \<open>
  C3. For every pair of Filters A and B composed over the shared kind \<open>'stream'\<close>, and
  every source, sink and state: the composed action allocates a fresh buffer (a new
  address, empty, at position 0), runs A's action with that buffer as its sink, and only
  when A has returned rewinds the buffer and runs B's action with the buffer as its source
  and the ultimate sink; an exception of A ends the run before B starts. Therefore, if A
  returns having written \<open>b1\<close> and then \<open>b2\<close> to the buffer, B starts in a state where a
  single \<open>read()\<close> of its source returns \<open>b1 + b2\<close>.
\<close>

theorem pipe_by_stream_materializes:
  assumes "type (output A) = ''stream''" and "type (input B) = ''stream''"
  shows "Filter_or A B = Inr \<lparr>input = input A, output = output B, thunk = pipe_by_stream A B\<rparr> \<and>
    (\<forall>src snk w.
       new_BytesIO w = (BytesIO (length (heap w)), w\<lparr>heap := heap w @ [bytesio_new]\<rparr>) \<and>
       call2 (pipe_by_stream A B) src snk w =
         (case call2 (thunk A) src (BytesIO (length (heap w))) (w\<lparr>heap := heap w @ [bytesio_new]\<rparr>) of
            (Inl e, w2) \<Rightarrow> (Inl e, w2)
          | (Inr r, w2) \<Rightarrow>
              (case stream_seek (BytesIO (length (heap w))) 0 w2 of
                 (Inl e, w3) \<Rightarrow> (Inl e, w3)
               | (Inr r', w3) \<Rightarrow> call2 (thunk B) (BytesIO (length (heap w))) snk w3))) \<and>
    (\<forall>src snk w r w2 b1 b2.
       call2 (thunk A) src (BytesIO (length (heap w))) (w\<lparr>heap := heap w @ [bytesio_new]\<rparr>)
         = (Inr r, w2) \<and>
       length (heap w) < length (heap w2) \<and>
       heap w2 ! length (heap w) = bytesio_write b2 (bytesio_write b1 bytesio_new)
       \<longrightarrow>
       call2 (pipe_by_stream A B) src snk w =
         call2 (thunk B) (BytesIO (length (heap w))) snk
           (w2\<lparr>heap := (heap w2)[length (heap w) := bytesio_seek 0 (heap w2 ! length (heap w))]\<rparr>) \<and>
       fst (stream_read (BytesIO (length (heap w)))
           (w2\<lparr>heap := (heap w2)[length (heap w) := bytesio_seek 0 (heap w2 ! length (heap w))]\<rparr>))
         = Inr (PyBytes (b1 @ b2)))"
proof (intro conjI allI impI)
  show "Filter_or A B = Inr \<lparr>input = input A, output = output B, thunk = pipe_by_stream A B\<rparr>"
    using assms by (simp add: Filter_or_def)
next
  fix w
  show "new_BytesIO w = (BytesIO (length (heap w)), w\<lparr>heap := heap w @ [bytesio_new]\<rparr>)"
    by (simp add: new_BytesIO_def)
next
  fix src snk w
  show "call2 (pipe_by_stream A B) src snk w =
         (case call2 (thunk A) src (BytesIO (length (heap w))) (w\<lparr>heap := heap w @ [bytesio_new]\<rparr>) of
            (Inl e, w2) \<Rightarrow> (Inl e, w2)
          | (Inr r, w2) \<Rightarrow>
              (case stream_seek (BytesIO (length (heap w))) 0 w2 of
                 (Inl e, w3) \<Rightarrow> (Inl e, w3)
               | (Inr r', w3) \<Rightarrow> call2 (thunk B) (BytesIO (length (heap w))) snk w3))"
    by (rule piped_run)
next
  fix src snk w r w2 b1 b2
  assume left: "call2 (thunk A) src (BytesIO (length (heap w))) (w\<lparr>heap := heap w @ [bytesio_new]\<rparr>)
         = (Inr r, w2) \<and>
       length (heap w) < length (heap w2) \<and>
       heap w2 ! length (heap w) = bytesio_write b2 (bytesio_write b1 bytesio_new)"
  then show "call2 (pipe_by_stream A B) src snk w =
         call2 (thunk B) (BytesIO (length (heap w))) snk
           (w2\<lparr>heap := (heap w2)[length (heap w) := bytesio_seek 0 (heap w2 ! length (heap w))]\<rparr>)"
    by (simp add: piped_run_ok)
  from left read_after_rewind [of "length (heap w)" w2]
  show "fst (stream_read (BytesIO (length (heap w)))
           (w2\<lparr>heap := (heap w2)[length (heap w) := bytesio_seek 0 (heap w2 ! length (heap w))]\<rparr>))
         = Inr (PyBytes (b1 @ b2))"
    by (simp add: getvalue_write_write_new)
qed

theorem pipe_by_stream_materializes_witness:
  "Filter_or stream_producer stream_consumer =
     Inr \<lparr>input = input stream_producer, output = output stream_consumer,
          thunk = pipe_by_stream stream_producer stream_consumer\<rparr> \<and>
   fst (call2 (pipe_by_stream stream_producer stream_consumer) PyNone PyNone empty_world)
     = Inr (PyBytes ''abcd'')"
proof -
  let ?w2 = "\<lparr>heap = [\<lparr>getvalue = ''abcd'', tell = 4\<rparr>], stdout = []\<rparr>"
  have kinds: "type (output stream_producer) = ''stream''"
    "type (input stream_consumer) = ''stream''"
    by (simp_all add: stream_producer_def stream_consumer_def mk_spec_def)
  have left: "call2 (thunk stream_producer) PyNone (BytesIO (length (heap empty_world)))
        (empty_world\<lparr>heap := heap empty_world @ [bytesio_new]\<rparr>) = (Inr PyNone, ?w2)"
    by (simp add: stream_producer_def empty_world_def write_twice_def
      bind_comp_def stream_write_def bytesio_write_def bytesio_new_def return_val_def)
  have buf: "heap ?w2 ! length (heap empty_world)
      = bytesio_write ''cd'' (bytesio_write ''ab'' bytesio_new)"
    by (simp add: empty_world_def bytesio_write_def bytesio_new_def)
  have kept: "length (heap empty_world) < length (heap ?w2)"
    by (simp add: empty_world_def)
  note mat = pipe_by_stream_materializes [OF kinds]
  from mat have composed: "Filter_or stream_producer stream_consumer =
     Inr \<lparr>input = input stream_producer, output = output stream_consumer,
          thunk = pipe_by_stream stream_producer stream_consumer\<rparr>"
    by blast
  from mat left kept buf have
    "call2 (pipe_by_stream stream_producer stream_consumer) PyNone PyNone empty_world =
       call2 (thunk stream_consumer) (BytesIO (length (heap empty_world))) PyNone
         (?w2\<lparr>heap := (heap ?w2)[length (heap empty_world) :=
                  bytesio_seek 0 (heap ?w2 ! length (heap empty_world))]\<rparr>) \<and>
     fst (stream_read (BytesIO (length (heap empty_world)))
         (?w2\<lparr>heap := (heap ?w2)[length (heap empty_world) :=
                  bytesio_seek 0 (heap ?w2 ! length (heap empty_world))]\<rparr>))
       = Inr (PyBytes (''ab'' @ ''cd''))"
    by blast
  then have "fst (call2 (pipe_by_stream stream_producer stream_consumer) PyNone PyNone empty_world)
      = Inr (PyBytes ''abcd'')"
    by (simp add: stream_consumer_def read_all_def)
  with composed show ?thesis by simp
qed

subsection \<open>\<open>slurp\<close>\<close>

text \<open>Stripping the byte \<open>c\<close> removes a whole run of trailing \<open>c\<close>s, and stops there.\<close>

lemma bytes_rstrip_trailing:
  assumes "body = [] \<or> last body \<noteq> c"
  shows "bytes_rstrip (body @ replicate n c) [c] = body"
proof -
  have run: "dropWhile (\<lambda>x. x = c) (replicate n c @ rev body) = dropWhile (\<lambda>x. x = c) (rev body)"
    by (rule dropWhile_append2) simp
  have stop: "dropWhile (\<lambda>x. x = c) (rev body) = rev body"
  proof (cases body rule: rev_cases)
    case Nil
    then show ?thesis by simp
  next
    case (snoc ys y)
    with assms have "y \<noteq> c" by simp
    with snoc show ?thesis by simp
  qed
  show ?thesis
    unfolding bytes_rstrip_def by (simp add: run stop)
qed

text \<open>
  C4. For every Filter with output kind \<open>'stream'\<close> and an input that is not required,
  whose action returns having left in its sink a byte string that ends in any number
  \<open>n\<close> of newline bytes (\<open>body\<close> is what stands before them, so \<open>body\<close> is empty or
  does not end in a newline), \<open>slurp\<close> returns \<open>body\<close>: all the trailing newlines are
  removed, not just one. The sink is the buffer \<open>slurp\<close>'s composition allocates.
\<close>

theorem slurp_strips_all_trailing_newlines:
  assumes "type (output F) = ''stream''" and "\<not> required (input F)"
    and "call2 (thunk F) PyNone (BytesIO (length (heap w))) (w\<lparr>heap := heap w @ [bytesio_new]\<rparr>)
           = (Inr r, w')"
    and "length (heap w) < length (heap w')"
    and "getvalue (heap w' ! length (heap w)) = body @ replicate n (CHR 0x0A)"
    and "body = [] \<or> last body \<noteq> CHR 0x0A"
  shows "fst (slurp F w) = Inr (PyBytes body)"
proof -
  let ?n = "length (heap w)"
  let ?w3 = "w'\<lparr>heap := (heap w')[?n := bytesio_seek 0 (heap w' ! ?n)]\<rparr>"
  have out_kind: "type (output slurp_filter) = ''bytes''"
    by (simp add: slurp_filter_def)
  have composed: "Filter_or F slurp_filter =
      Inr \<lparr>input = input F, output = output slurp_filter, thunk = pipe_by_stream F slurp_filter\<rparr>"
    using assms(1) by (simp add: Filter_or_def slurp_filter_def)
  have invoke: "slurp F w = call2 (pipe_by_stream F slurp_filter) PyNone PyNone w"
    using assms(2) by (simp add: slurp_def composed Filter_call_def out_kind)
  have "call2 (pipe_by_stream F slurp_filter) PyNone PyNone w
      = call2 (thunk slurp_filter) (BytesIO ?n) PyNone ?w3"
    using assms(3,4) by (rule piped_run_ok)
  also have "fst \<dots> = Inr (PyBytes (bytes_rstrip (getvalue (heap w' ! ?n)) [CHR 0x0A]))"
    using assms(4) by (simp add: slurp_filter_def bind_comp_def read_after_rewind rstrip_def)
  finally show ?thesis
    using assms(5,6) by (simp add: invoke bytes_rstrip_trailing)
qed

theorem slurp_strips_all_trailing_newlines_witness:
  "fst (slurp hello_producer empty_world) = Inr (PyBytes ''hello'')"
  using slurp_strips_all_trailing_newlines [of hello_producer empty_world PyNone
      "\<lparr>heap = [\<lparr>getvalue = ''hello'' @ [CHR 0x0A, CHR 0x0A, CHR 0x0A], tell = 8\<rparr>], stdout = []\<rparr>"
      "''hello''" 3]
  by (simp add: hello_producer_def mk_spec_def required_def empty_world_def write_twice_def
      bind_comp_def stream_write_def bytesio_write_def bytesio_new_def return_val_def
      numeral_3_eq_3)

subsection \<open>The \<open>Function\<close> adapter\<close>

text \<open>
  The three shapes that pass a handle: the thunk is a lambda of two parameters and calls
  the wrapped function with exactly the applicable handles before the caller's arguments.
\<close>

lemma Function_call_source_and_sink:
  assumes "type (Function.input F) \<in> {''stream'', ''iter'', ''bytes''}"
    and "type (Function.output F) = ''stream''"
  shows "Function_call F args kw =
           Inr \<lparr>input = Function.input F, output = Function.output F,
                thunk = Lambda2 (\<lambda>inp outp. func F (inp # outp # args) kw)\<rparr> \<and>
         call2 (Lambda2 (\<lambda>inp outp. func F (inp # outp # args) kw)) src snk
           = func F (src # snk # args) kw"
  using assms by (auto simp: Function_call_def pass_input_def pass_output_def)

lemma Function_call_source_only:
  assumes "type (Function.input F) \<in> {''stream'', ''iter'', ''bytes''}"
    and "type (Function.output F) \<in> {''none'', ''iter'', ''bytes''}"
  shows "Function_call F args kw =
           Inr \<lparr>input = Function.input F, output = Function.output F,
                thunk = Lambda2 (\<lambda>inp _. func F (inp # args) kw)\<rparr> \<and>
         call2 (Lambda2 (\<lambda>inp _. func F (inp # args) kw)) src snk = func F (src # args) kw"
  using assms by (auto simp: Function_call_def pass_input_def pass_output_def)

lemma Function_call_sink_only:
  assumes "type (Function.input F) = ''none''" and "type (Function.output F) = ''stream''"
  shows "Function_call F args kw =
           Inr \<lparr>input = Function.input F, output = Function.output F,
                thunk = Lambda2 (\<lambda>_ outp. func F (outp # args) kw)\<rparr> \<and>
         call2 (Lambda2 (\<lambda>_ outp. func F (outp # args) kw)) src snk = func F (snk # args) kw"
  using assms by (auto simp: Function_call_def pass_input_def pass_output_def)

text \<open>
  C2 says that in all four shapes invoking the Filter's thunk calls the wrapped function.
  In the fourth shape (input kind \<open>'none'\<close>, output kind \<open>'none'\<close>, \<open>'iter'\<close> or
  \<open>'bytes'\<close>) the code does not: the thunk is a lambda of no parameters, every caller of a
  thunk passes two arguments, and so the call raises \<open>TypeError\<close> before the wrapped
  function is reached, for every wrapped function and every argument list. Invoking the
  Filter (\<open>Filter.__call__\<close>) ends the same way.
\<close>

theorem Function_call_neither_shape_TypeError:
  assumes "type (Function.input F) = ''none''"
    and "type (Function.output F) \<in> {''none'', ''iter'', ''bytes''}"
  shows "Function_call F args kw =
           Inr \<lparr>input = Function.input F, output = Function.output F,
                thunk = Lambda0 (func F args kw)\<rparr> \<and>
         call2 (Lambda0 (func F args kw)) src snk w = (Inl TypeError, w) \<and>
         Filter_call \<lparr>input = Function.input F, output = Function.output F,
                      thunk = Lambda0 (func F args kw)\<rparr> w = (Inl TypeError, w)"
  using assms
  by (auto simp: Function_call_def pass_input_def pass_output_def Filter_call_def
      required_def raise_exn_def)

theorem Function_call_neither_shape_TypeError_witness:
  "Function_call bytes_function [] [] =
     Inr \<lparr>input = mk_spec ''none'', output = mk_spec ''bytes'',
          thunk = Lambda0 (announce [] [])\<rparr> \<and>
   Filter_call \<lparr>input = mk_spec ''none'', output = mk_spec ''bytes'',
                thunk = Lambda0 (announce [] [])\<rparr> empty_world
     = (Inl TypeError, empty_world) \<and>
   call0 (Lambda0 (announce [] [])) empty_world
     = (Inr (PyBytes ''done''), \<lparr>heap = [], stdout = ''called''\<rparr>)"
  using Function_call_neither_shape_TypeError
          [of bytes_function "[]" "[]" PyNone PyNone empty_world]
  by (simp add: bytes_function_def mk_spec_def announce_def bind_comp_def stream_write_def
      return_val_def empty_world_def)

end
